theory Spec2Isabelle
  imports Complex_Main "HOL-Library.Sublist"
begin

section \<open>Python strings\<close>

text \<open>
  Strings are lists of 8-bit characters. The case mappings, the notion of a cased
  character and of whitespace are those of Python's \<^verbatim>\<open>str\<close> on the ASCII range;
  every other character is uncased and is not whitespace. The one exception is the
  sharp s in \<open>upper\<close>, below.
\<close>

definition ascii_lowercase :: string where
  "ascii_lowercase = ''abcdefghijklmnopqrstuvwxyz''"

definition ascii_uppercase :: string where
  "ascii_uppercase = ''ABCDEFGHIJKLMNOPQRSTUVWXYZ''"

definition islower :: "char \<Rightarrow> bool" where
  "islower c = (c \<in> set ascii_lowercase)"

definition isupper :: "char \<Rightarrow> bool" where
  "isupper c = (c \<in> set ascii_uppercase)"

definition to_upper :: "char \<Rightarrow> char" where
  "to_upper c = (case map_of (zip ascii_lowercase ascii_uppercase) c of Some u \<Rightarrow> u | None \<Rightarrow> c)"

definition to_lower :: "char \<Rightarrow> char" where
  "to_lower c = (case map_of (zip ascii_uppercase ascii_lowercase) c of Some l \<Rightarrow> l | None \<Rightarrow> c)"

text \<open>
  \<^verbatim>\<open>s.upper()\<close>. The sharp s (\<open>CHR 0xDF\<close>) is the one character below 256 whose upper case
  Python writes with two characters, \<^verbatim>\<open>SS\<close>, so that the result can be longer than \<open>s\<close>;
  every other character gives one character.
\<close>

definition upper_char :: "char \<Rightarrow> string" where
  "upper_char c = (if c = CHR 0xDF then ''SS'' else [to_upper c])"

definition upper :: "string \<Rightarrow> string" where
  "upper s = concat (map upper_char s)"

text \<open>\<^verbatim>\<open>s.lower()\<close>.\<close>

definition lower :: "string \<Rightarrow> string" where
  "lower s = map to_lower s"

text \<open>
  \<^verbatim>\<open>s.title()\<close>: a cased character is upper-cased when the character before it is
  uncased (or there is none) and lower-cased otherwise; the flag is whether the previous
  character was cased.
\<close>

fun title_from :: "bool \<Rightarrow> string \<Rightarrow> string" where
  "title_from prev [] = []"
| "title_from prev (c # cs) =
     (if islower c then (if prev then c else to_upper c) # title_from True cs
      else if isupper c then (if prev then to_lower c else c) # title_from True cs
      else c # title_from False cs)"

definition title :: "string \<Rightarrow> string" where
  "title s = title_from False s"

text \<open>\<^verbatim>\<open>s.replace(a, b)\<close> for one-character \<open>a\<close> and \<open>b\<close>.\<close>

definition replace :: "char \<Rightarrow> char \<Rightarrow> string \<Rightarrow> string" where
  "replace a b s = map (\<lambda>c. if c = a then b else c) s"

text \<open>The whitespace of \<^verbatim>\<open>str.strip()\<close>: tab to carriage return, the four separators, space.\<close>

definition whitespace :: string where
  "whitespace = [CHR 0x09, CHR 0x0A, CHR 0x0B, CHR 0x0C, CHR 0x0D,
                 CHR 0x1C, CHR 0x1D, CHR 0x1E, CHR 0x1F, CHR 0x20]"

definition isspace :: "char \<Rightarrow> bool" where
  "isspace c = (c \<in> set whitespace)"

definition strip :: "string \<Rightarrow> string" where
  "strip s = rev (dropWhile isspace (rev (dropWhile isspace s)))"

text \<open>\<^verbatim>\<open>sep.join(xs)\<close>.\<close>

fun join :: "string \<Rightarrow> string list \<Rightarrow> string" where
  "join sep [] = []"
| "join sep [x] = x"
| "join sep (x # y # ys) = x @ sep @ join sep (y # ys)"

text \<open>\<^verbatim>\<open>s.split(c)\<close> for a one-character separator: always at least one piece.\<close>

fun split_on :: "char \<Rightarrow> string \<Rightarrow> string list" where
  "split_on c [] = [[]]"
| "split_on c (x # xs) =
     (if x = c then [] # split_on c xs
      else (case split_on c xs of
              piece # pieces \<Rightarrow> (x # piece) # pieces
            | [] \<Rightarrow> [[x]]))"

text \<open>\<^verbatim>\<open>xs[:n]\<close>: a negative bound counts from the end.\<close>

definition slice_to :: "int \<Rightarrow> 'a list \<Rightarrow> 'a list" where
  "slice_to n xs = (if 0 \<le> n then take (nat n) xs else take (length xs - nat (- n)) xs)"

text \<open>\<^verbatim>\<open>str(n)\<close> for an integer.\<close>

fun str_nat :: "nat \<Rightarrow> string" where
  "str_nat n =
     (if n < 10 then [''0123456789'' ! n]
      else str_nat (n div 10) @ [''0123456789'' ! (n mod 10)])"

definition str_int :: "int \<Rightarrow> string" where
  "str_int i = (if i < 0 then CHR ''-'' # str_nat (nat (- i)) else str_nat (nat i))"

section \<open>Exceptions\<close>

text \<open>
  The exception classes the modelled code raises itself, and \<open>Other\<close> for whatever an
  external library raises; each carries its message, \<^verbatim>\<open>str(e)\<close>.
\<close>

datatype exc =
    ImportError string
  | ValueError string
  | FileNotFoundError string
  | KeyError string
  | Other string

fun exc_str :: "exc \<Rightarrow> string" where
  "exc_str (ImportError m) = m"
| "exc_str (ValueError m) = m"
| "exc_str (FileNotFoundError m) = m"
| "exc_str (KeyError m) = m"
| "exc_str (Other m) = m"

section \<open>walter/integrations/llm.py\<close>

text \<open>
  The world outside \<^verbatim>\<open>LLMManager\<close>: whether \<^verbatim>\<open>import ollama\<close> succeeds, the
  environment variable \<^verbatim>\<open>WALTER_MODEL\<close>, and the runtime's three calls.
  \<open>list_models\<close> is \<^verbatim>\<open>[m['name'] for m in ollama.list()['models']]\<close>, \<open>generate\<close> is
  \<^verbatim>\<open>ollama.generate(model=..., prompt=..., temperature=...)['response']\<close>; each returns
  its value or the exception raised on the way. \<open>json_dumps\<close> is
  \<^verbatim>\<open>json.dumps(..., indent=2)\<close> on the statistics dictionary.
\<close>

record 'j ollama_env =
  import_ok :: bool
  walter_model :: "string option"
  list_models :: "exc + string list"
  pull :: "string \<Rightarrow> exc + unit"
  generate :: "string \<Rightarrow> string \<Rightarrow> exc + string"
  json_dumps :: "'j \<Rightarrow> string"

text \<open>
  The attributes of an \<^verbatim>\<open>LLMManager\<close>. \<open>ollama\<close> is whether the attribute holds the
  module (rather than \<^verbatim>\<open>None\<close>); \<open>warned\<close> collects the messages given to
  \<^verbatim>\<open>warnings.warn\<close> during construction. The temperature is only forwarded to the
  runtime and is left out.
\<close>

record llm_manager =
  model :: string
  context_window :: int
  llm_available :: bool
  ollama :: bool
  warned :: "string list"

definition DEFAULT_MODEL :: string where
  "DEFAULT_MODEL = ''phi''"

definition DEFAULT_CONTEXT :: int where
  "DEFAULT_CONTEXT = 2048"

text \<open>\<^verbatim>\<open>_ensure_model\<close>: returns at once while \<open>llm_available\<close> is false.\<close>

definition ensure_model :: "'j ollama_env \<Rightarrow> llm_manager \<Rightarrow> llm_manager" where
  "ensure_model env s =
     (if \<not> llm_available s then s
      else case list_models env of
        Inl e \<Rightarrow> s\<lparr>llm_available := False,
                    warned := warned s @ [''Failed to initialize Ollama: '' @ exc_str e]\<rparr>
      | Inr model_names \<Rightarrow>
          if model s \<notin> set model_names then
            (case pull env (model s) of
               Inl e \<Rightarrow> s\<lparr>llm_available := False,
                           warned := warned s @ [''Failed to initialize Ollama: '' @ exc_str e]\<rparr>
             | Inr _ \<Rightarrow> s)
          else s)"

text \<open>
  \<^verbatim>\<open>__init__\<close>. \<^verbatim>\<open>model or os.getenv("WALTER_MODEL", DEFAULT_MODEL)\<close> takes the
  argument unless it is \<^verbatim>\<open>None\<close> or empty; likewise the context window unless it is
  \<^verbatim>\<open>None\<close> or 0.
\<close>

definition LLMManager_init ::
  "'j ollama_env \<Rightarrow> string option \<Rightarrow> int option \<Rightarrow> bool \<Rightarrow> exc + llm_manager" where
  "LLMManager_init env model_arg context_arg require_llm =
     (let s0 = \<lparr>model = (case model_arg of
                             Some m \<Rightarrow> if m \<noteq> [] then m
                                       else (case walter_model env of Some v \<Rightarrow> v | None \<Rightarrow> DEFAULT_MODEL)
                           | None \<Rightarrow> (case walter_model env of Some v \<Rightarrow> v | None \<Rightarrow> DEFAULT_MODEL)),
                 context_window = (case context_arg of
                                     Some n \<Rightarrow> if n \<noteq> 0 then n else DEFAULT_CONTEXT
                                   | None \<Rightarrow> DEFAULT_CONTEXT),
                 llm_available = False,
                 ollama = False,
                 warned = []\<rparr>
      in if import_ok env then
           (let s1 = s0\<lparr>ollama := True\<rparr>;
                s2 = ensure_model env s1
            in Inr (s2\<lparr>llm_available := True\<rparr>))
         else if require_llm then Inl (ImportError ''Ollama is required but not available'')
         else Inr (s0\<lparr>warned := warned s0 @ [''Ollama not available. LLM features will be disabled.''],
                      ollama := False\<rparr>))"

text \<open>
  The \<^verbatim>\<open>data\<close> dictionary, restricted to the keys the class reads, each absent or
  present with the type \<^verbatim>\<open>analyze_dataset\<close> gives it. A feature count is formatted
  by \<^verbatim>\<open>str\<close>.
\<close>

datatype scalar = SInt int | SStr string

fun py_str :: "scalar \<Rightarrow> string" where
  "py_str (SInt i) = str_int i"
| "py_str (SStr s) = s"

record 'j data =
  filename :: "string option"
  format :: "string option"
  feature_count :: "scalar option"
  columns :: "string list option"
  crs :: "string option"
  geometry_type :: "string list option"
  geometry_stats :: "'j option"

text \<open>\<^verbatim>\<open>d.get(k, default)\<close> and the formatting of \<^verbatim>\<open>d.get(k)\<close> inside an f-string.\<close>

definition get_or :: "'a option \<Rightarrow> 'a \<Rightarrow> 'a" where
  "get_or v d = (case v of Some x \<Rightarrow> x | None \<Rightarrow> d)"

definition fmt_get :: "('a \<Rightarrow> string) \<Rightarrow> 'a option \<Rightarrow> string" where
  "fmt_get f v = (case v of Some x \<Rightarrow> f x | None \<Rightarrow> ''None'')"

definition indent8 :: string where
  "indent8 = replicate 8 (CHR '' '')"

text \<open>\<^verbatim>\<open>_generate_fallback_description\<close>: the three-line template, stripped.\<close>

definition generate_fallback_description :: "'j data \<Rightarrow> string" where
  "generate_fallback_description d =
     (let feature_count = py_str (get_or (feature_count d) (SStr ''Unknown''));
          geometry_type = join '', '' (get_or (geometry_type d) [''Unknown'']);
          columns = join '', '' (get_or (columns d) [])
      in strip (''\<newline>'' @ indent8 @ ''Dataset contains '' @ feature_count
                @ '' features of type '' @ geometry_type @ ''.\<newline>''
                @ indent8 @ ''Available attributes: '' @ columns @ ''.\<newline>''
                @ indent8))"

text \<open>\<^verbatim>\<open>_generate_fallback_tags\<close>.\<close>

definition generate_fallback_tags :: "string \<Rightarrow> string list" where
  "generate_fallback_tags description =
     [''gis'', ''spatial-data'', ''geospatial'', ''vector-data'', ''analysis'']"

text \<open>\<^verbatim>\<open>_create_description_prompt\<close>.\<close>

definition create_description_prompt :: "'j ollama_env \<Rightarrow> 'j data \<Rightarrow> string" where
  "create_description_prompt env d =
     ''\<newline>'' @ indent8 @ ''Generate a professional description of this GIS dataset:\<newline>''
     @ indent8 @ ''\<newline>''
     @ indent8 @ ''Dataset Information:\<newline>''
     @ indent8 @ ''- Name: '' @ fmt_get id (filename d) @ ''\<newline>''
     @ indent8 @ ''- Format: '' @ fmt_get id (format d) @ ''\<newline>''
     @ indent8 @ ''- Features: '' @ fmt_get py_str (feature_count d) @ '' ''
         @ lower (join '', '' (get_or (geometry_type d) [])) @ ''\<newline>''
     @ indent8 @ ''- CRS: '' @ fmt_get id (crs d) @ ''\<newline>''
     @ indent8 @ ''- Attributes: '' @ join '', '' (get_or (columns d) []) @ ''\<newline>''
     @ indent8 @ ''\<newline>''
     @ indent8 @ ''Statistics:\<newline>''
     @ indent8 @ (case geometry_stats d of Some st \<Rightarrow> json_dumps env st | None \<Rightarrow> ''{}'') @ ''\<newline>''
     @ indent8 @ ''\<newline>''
     @ indent8 @ ''Write a clear, professional description that a GIS analyst would find helpful.\<newline>''
     @ indent8 @ ''Focus on the key characteristics and potential uses of the dataset.\<newline>''
     @ indent8 @ ''Use natural, flowing language rather than just listing facts.\<newline>''
     @ indent8"

text \<open>\<^verbatim>\<open>generate_description\<close>: any exception of the runtime call leads to the fallback.\<close>

definition generate_description :: "'j ollama_env \<Rightarrow> llm_manager \<Rightarrow> 'j data \<Rightarrow> string" where
  "generate_description env s d =
     (if \<not> llm_available s then generate_fallback_description d
      else case generate env (model s) (create_description_prompt env d) of
        Inr response \<Rightarrow> strip response
      | Inl e \<Rightarrow> generate_fallback_description d)"

text \<open>\<^verbatim>\<open>suggest_tags\<close>, with the prompt it sends and the cleaning of the answer.\<close>

definition tags_prompt :: "string \<Rightarrow> int \<Rightarrow> string" where
  "tags_prompt description count =
     ''\<newline>'' @ indent8 @ ''Based on this GIS dataset description, suggest '' @ str_int count
         @ '' relevant tags:\<newline>''
     @ indent8 @ ''\<newline>''
     @ indent8 @ description @ ''\<newline>''
     @ indent8 @ ''\<newline>''
     @ indent8 @ ''Format the tags as a comma-separated list, using lowercase and hyphens for spaces.\<newline>''
     @ indent8 @ ''Example: urban-planning, demographics, transportation\<newline>''
     @ indent8 @ ''\<newline>''
     @ indent8 @ ''Tags:\<newline>''
     @ indent8"

definition suggest_tags :: "'j ollama_env \<Rightarrow> llm_manager \<Rightarrow> string \<Rightarrow> int \<Rightarrow> string list" where
  "suggest_tags env s description count =
     (if \<not> llm_available s then generate_fallback_tags description
      else case generate env (model s) (tags_prompt description count) of
        Inr response \<Rightarrow>
          slice_to count
            (map (\<lambda>tag. replace (CHR '' '') (CHR ''-'') (lower (strip tag)))
                 (split_on (CHR '','') response))
      | Inl e \<Rightarrow> generate_fallback_tags description)"

text \<open>
  Two fixed environments for concrete runs: one without the \<^verbatim>\<open>ollama\<close> package, and
  one where the package imports but its server cannot be reached, so that every call
  raises.
\<close>

definition env_no_ollama :: "unit ollama_env" where
  "env_no_ollama =
     \<lparr>import_ok = False, walter_model = None,
      list_models = Inl (Other ''ollama is not installed''),
      pull = (\<lambda>m. Inl (Other ''ollama is not installed'')),
      generate = (\<lambda>m p. Inl (Other ''ollama is not installed'')),
      json_dumps = (\<lambda>u. ''{}'')\<rparr>"

definition env_server_down :: "unit ollama_env" where
  "env_server_down =
     \<lparr>import_ok = True, walter_model = None,
      list_models = Inl (Other ''connection refused''),
      pull = (\<lambda>m. Inl (Other ''connection refused'')),
      generate = (\<lambda>m p. Inl (Other ''connection refused'')),
      json_dumps = (\<lambda>u. ''{}'')\<rparr>"

definition manager_off :: llm_manager where
  "manager_off =
     \<lparr>model = ''phi'', context_window = 2048, llm_available = False, ollama = False,
      warned = [''Ollama not available. LLM features will be disabled.'']\<rparr>"

definition cities :: "unit data" where
  "cities =
     \<lparr>filename = Some ''cities.geojson'', format = Some ''.geojson'',
      feature_count = Some (SInt 3),
      columns = Some [''name'', ''population'', ''state''],
      crs = Some ''EPSG:4326'',
      geometry_type = Some [''Point''],
      geometry_stats = None\<rparr>"

section \<open>walter/utils/gis.py\<close>

text \<open>
  The value of \<^verbatim>\<open>gdf.crs\<close>: \<^verbatim>\<open>None\<close>, a string, or a CRS object, of which the
  code reads \<^verbatim>\<open>to_authority()\<close> (an authority name and code, or \<^verbatim>\<open>None\<close>) and
  \<^verbatim>\<open>is_geographic\<close>.
\<close>

record crs_object =
  to_authority :: "(string \<times> string) option"
  is_geographic :: bool

datatype crs_value = CrsString string | CrsObject crs_object

record geodataframe =
  gdf_crs :: "crs_value option"

definition get_crs_info :: "'a geodataframe_scheme \<Rightarrow> string" where
  "get_crs_info gdf =
     (case gdf_crs gdf of
        None \<Rightarrow> ''undefined''
      | Some (CrsString s) \<Rightarrow> s
      | Some (CrsObject c) \<Rightarrow>
          (let auth_name = (case to_authority c of Some a \<Rightarrow> fst a | None \<Rightarrow> ''Custom'');
               auth_code = (case to_authority c of Some a \<Rightarrow> snd a | None \<Rightarrow> ''Unknown'')
           in auth_name @ '':'' @ auth_code))"











section \<open>walter/utils/text.py\<close>

text \<open>
  The \<^verbatim>\<open>components\<close> dictionary is the list of its items in insertion order. Each
  renderer appends one section per item to a list and joins the list; the f-string of a
  section is given a name.
\<close>

type_synonym components = "(string \<times> string) list"

definition md_section :: "string \<Rightarrow> string \<Rightarrow> string" where
  "md_section title_key content =
     ''### '' @ title title_key @ ''\<newline>\<newline>'' @ content @ ''\<newline>''"

definition format_markdown :: "components \<Rightarrow> string" where
  "format_markdown components =
     (let sections = foldl (\<lambda>sections (title_key, content).
                        sections @ [md_section title_key content]) [] components
      in join ''\<newline>'' sections)"

definition html_section :: "string \<Rightarrow> string \<Rightarrow> string" where
  "html_section title_key content =
     ''<h3>'' @ title title_key @ ''</h3>\<newline><p>'' @ content @ ''</p>''"

definition format_html :: "components \<Rightarrow> string" where
  "format_html components =
     (let sections = foldl (\<lambda>sections (title_key, content).
                        sections @ [html_section title_key content]) [] components
      in join ''\<newline>'' ([''<div class='walter-output'>''] @ sections @ [''</div>'']))"

definition text_section :: "string \<Rightarrow> string \<Rightarrow> string" where
  "text_section title_key content =
     upper title_key @ ''\<newline>'' @ replicate (length title_key) (CHR ''='') @ ''\<newline>''
     @ content @ ''\<newline>''"

definition format_text :: "components \<Rightarrow> string" where
  "format_text components =
     (let sections = foldl (\<lambda>sections (title_key, content).
                        sections @ [text_section title_key content]) [] components
      in join ''\<newline>'' sections)"

text \<open>\<^verbatim>\<open>format_output\<close>: \<^verbatim>\<open>formatters.get(format.lower(), format_text)\<close>.\<close>

definition format_output :: "components \<Rightarrow> string \<Rightarrow> string" where
  "format_output components fmt =
     (let formatters = [(''markdown'', format_markdown),
                        (''html'', format_html),
                        (''text'', format_text)];
          formatter = (case map_of formatters (lower fmt) of Some f \<Rightarrow> f | None \<Rightarrow> format_text)
      in formatter components)"











section \<open>walter/integrations/gitbook.py\<close>

text \<open>\<^verbatim>\<open>s.rfind(c)\<close>, \<open>None\<close> for \<^verbatim>\<open>-1\<close>, and \<^verbatim>\<open>PurePath.stem\<close> on a file name.\<close>

definition rfind :: "char \<Rightarrow> string \<Rightarrow> nat option" where
  "rfind c s =
     (if c \<in> set s then Some (length s - 1 - length (takeWhile (\<lambda>x. x \<noteq> c) (rev s)))
      else None)"

definition stem :: "string \<Rightarrow> string" where
  "stem name =
     (case rfind (CHR ''.'') name of
        Some i \<Rightarrow> if 0 < i \<and> i < length name - 1 then take i name else name
      | None \<Rightarrow> name)"

text \<open>The title of a page, \<^verbatim>\<open>md_file.stem.replace("-", " ").title()\<close>, from the stem.\<close>

definition title_of_stem :: "string \<Rightarrow> string" where
  "title_of_stem s = title (replace (CHR ''-'') (CHR '' '') s)"

text \<open>
  The title as the specification words it, for comparison: hyphens and underscores
  converted to spaces, then title-cased.
\<close>

definition spec_title_of_stem :: "string \<Rightarrow> string" where
  "spec_title_of_stem s =
     title (replace (CHR ''_'') (CHR '' '') (replace (CHR ''-'') (CHR '' '') s))"

text \<open>
  A file found under the source directory: the directories between the source directory
  and the file, the file's name, and its text.
\<close>

record source_file =
  file_parent :: "string list"
  file_name :: string
  file_content :: string

text \<open>\<^verbatim>\<open>str(md_file.relative_to(source_dir))\<close>.\<close>

definition relative_path :: "source_file \<Rightarrow> string" where
  "relative_path f = join ''/'' (file_parent f @ [file_name f])"

text \<open>
  \<^verbatim>\<open>source_dir.glob("**/*.md")\<close> over the files under the directory, in the order the
  file system lists them: those whose name ends in \<^verbatim>\<open>.md\<close>.
\<close>

definition glob_md :: "source_file list \<Rightarrow> source_file list" where
  "glob_md files = filter (\<lambda>f. suffix ''.md'' (file_name f)) files"

text \<open>An entry of the list \<^verbatim>\<open>sync_directory\<close> returns.\<close>

record page =
  p_title :: string
  p_path :: string
  p_id :: string

text \<open>
  What the publisher has done so far, oldest first: a page created or updated in a space
  (space, title or page id, content), the index file written.
\<close>

datatype event =
    Created string string string
  | Updated string string string
  | WriteSummary string

text \<open>
  The world outside the publisher: the configuration file (\<open>None\<close> when it does not
  exist, else the mapping \<^verbatim>\<open>yaml.safe_load\<close> gives), the two calls of \<^verbatim>\<open>GitBookAPI\<close>,
  each answering a request with the JSON object of the response or raising, and the
  rendering of the \<^verbatim>\<open>gitbook_summary.md.j2\<close> template.
\<close>

record gitbook_env =
  config_path :: string
  config :: "(string \<rightharpoonup> string) option"
  create_page :: "string \<Rightarrow> string \<Rightarrow> string \<Rightarrow> exc + (string \<rightharpoonup> string)"
  update_page :: "string \<Rightarrow> string \<Rightarrow> string \<Rightarrow> exc + (string \<rightharpoonup> string)"
  create_summary :: "page list \<Rightarrow> exc + string"

definition load_config :: "gitbook_env \<Rightarrow> exc + (string \<rightharpoonup> string)" where
  "load_config env =
     (case config env of
        None \<Rightarrow> Inl (FileNotFoundError (''GitBook config not found at '' @ config_path env))
      | Some cfg \<Rightarrow> Inr cfg)"

text \<open>\<^verbatim>\<open>a or b\<close> on optional strings: \<open>a\<close> unless it is \<^verbatim>\<open>None\<close> or empty.\<close>

definition or_else :: "string option \<Rightarrow> string option \<Rightarrow> string option" where
  "or_else a b = (case a of Some s \<Rightarrow> if s = [] then b else a | None \<Rightarrow> b)"

text \<open>\<^verbatim>\<open>publish_content\<close>, given what has been done so far.\<close>

definition publish_content ::
  "gitbook_env \<Rightarrow> event list \<Rightarrow> string \<Rightarrow> string \<Rightarrow> string option \<Rightarrow> string option
     \<Rightarrow> event list \<times> (exc + (string \<rightharpoonup> string))" where
  "publish_content env trace content ttl space_id page_id =
     (case load_config env of
        Inl e \<Rightarrow> (trace, Inl e)
      | Inr cfg \<Rightarrow>
          (case or_else space_id (cfg ''default_space'') of
             None \<Rightarrow> (trace, Inl (ValueError ''GitBook space ID not provided''))
           | Some sid \<Rightarrow>
               if sid = [] then (trace, Inl (ValueError ''GitBook space ID not provided''))
               else (case or_else page_id None of
                       Some pid \<Rightarrow>
                         (case update_page env sid pid content of
                            Inl e \<Rightarrow> (trace, Inl e)
                          | Inr response \<Rightarrow> (trace @ [Updated sid pid content], Inr response))
                     | None \<Rightarrow>
                         (case create_page env sid ttl content of
                            Inl e \<Rightarrow> (trace, Inl e)
                          | Inr response \<Rightarrow> (trace @ [Created sid ttl content], Inr response)))))"

text \<open>
  The loop of \<^verbatim>\<open>sync_directory\<close> over the files of the glob; \<^verbatim>\<open>result["id"]\<close> raises
  \<^verbatim>\<open>KeyError\<close> when the response has no such key.
\<close>

fun sync_files ::
  "gitbook_env \<Rightarrow> string \<Rightarrow> source_file list \<Rightarrow> event list \<Rightarrow> page list
     \<Rightarrow> event list \<times> (exc + page list)" where
  "sync_files env space_id [] trace published_pages = (trace, Inr published_pages)"
| "sync_files env space_id (md_file # rest) trace published_pages =
     (if file_name md_file = ''SUMMARY.md'' then sync_files env space_id rest trace published_pages
      else
        (let ttl = title_of_stem (stem (file_name md_file)) in
         case publish_content env trace (file_content md_file) ttl (Some space_id) None of
           (trace', Inl e) \<Rightarrow> (trace', Inl e)
         | (trace', Inr result) \<Rightarrow>
             (case result ''id'' of
                None \<Rightarrow> (trace', Inl (KeyError (CHR 0x27 # ''id'' @ [CHR 0x27])))
              | Some i \<Rightarrow>
                  sync_files env space_id rest trace'
                    (published_pages @ [\<lparr>p_title = ttl, p_path = relative_path md_file, p_id = i\<rparr>]))))"

text \<open>\<^verbatim>\<open>sync_directory\<close>, on the files under the source directory.\<close>

definition sync_directory ::
  "gitbook_env \<Rightarrow> source_file list \<Rightarrow> string option \<Rightarrow> event list \<times> (exc + page list)" where
  "sync_directory env files space_id =
     (case load_config env of
        Inl e \<Rightarrow> ([], Inl e)
      | Inr cfg \<Rightarrow>
          (case or_else space_id (cfg ''default_space'') of
             None \<Rightarrow> ([], Inl (ValueError ''GitBook space ID not provided''))
           | Some sid \<Rightarrow>
               if sid = [] then ([], Inl (ValueError ''GitBook space ID not provided''))
               else (case sync_files env sid (glob_md files) [] [] of
                       (trace, Inl e) \<Rightarrow> (trace, Inl e)
                     | (trace, Inr published_pages) \<Rightarrow>
                         (case create_summary env published_pages of
                            Inl e \<Rightarrow> (trace, Inl e)
                          | Inr summary \<Rightarrow> (trace @ [WriteSummary summary], Inr published_pages)))))"

text \<open>
  The markdown files other than the index, the event of publishing one of them, and the
  entry that belongs to it: its title and relative path, with the \<^verbatim>\<open>id\<close> of the
  response to its request.
\<close>

definition targets :: "source_file list \<Rightarrow> source_file list" where
  "targets files = filter (\<lambda>f. file_name f \<noteq> ''SUMMARY.md'') (glob_md files)"

definition created :: "string \<Rightarrow> source_file \<Rightarrow> event" where
  "created sid f = Created sid (title_of_stem (stem (file_name f))) (file_content f)"

definition entry_of :: "gitbook_env \<Rightarrow> string \<Rightarrow> source_file \<Rightarrow> page \<Rightarrow> bool" where
  "entry_of env sid f p =
     (p_title p = title_of_stem (stem (file_name f)) \<and>
      p_path p = relative_path f \<and>
      (case create_page env sid (title_of_stem (stem (file_name f))) (file_content f) of
         Inr response \<Rightarrow> response ''id'' = Some (p_id p)
       | Inl e \<Rightarrow> False))"

text \<open>The remote accepts a file: its request is answered, and the answer has an id.\<close>

definition accepts :: "gitbook_env \<Rightarrow> string \<Rightarrow> source_file \<Rightarrow> bool" where
  "accepts env sid f =
     (case create_page env sid (title_of_stem (stem (file_name f))) (file_content f) of
        Inr response \<Rightarrow> response ''id'' \<noteq> None
      | Inl e \<Rightarrow> False)"

text \<open>
  A documentation directory with an index, two pages and an image, and a remote that
  answers every creation with the id \<^verbatim>\<open>page-\<close> followed by the title.
\<close>

definition docs_dir :: "source_file list" where
  "docs_dir =
     [\<lparr>file_parent = [], file_name = ''SUMMARY.md'', file_content = ''# Summary''\<rparr>,
      \<lparr>file_parent = [], file_name = ''us-cities.md'', file_content = ''# US Major Cities''\<rparr>,
      \<lparr>file_parent = [''maps''], file_name = ''map.png'', file_content = ''''\<rparr>,
      \<lparr>file_parent = [''guides''], file_name = ''getting_started.md'', file_content = ''# Start''\<rparr>]"

definition gitbook_ok :: gitbook_env where
  "gitbook_ok =
     \<lparr>config_path = ''.walter/gitbook.yml'',
      config = Some [''default_space'' \<mapsto> ''space-1''],
      create_page = (\<lambda>sid ttl content. Inr [''id'' \<mapsto> ''page-'' @ ttl]),
      update_page = (\<lambda>sid pid content. Inr [''id'' \<mapsto> pid]),
      create_summary = (\<lambda>pages. Inr (concat (map (\<lambda>p. ''* '' @ p_title p @ ''\<newline>'') pages)))\<rparr>"

section \<open>walter/cli.py\<close>

text \<open>
  What \<^verbatim>\<open>console.print\<close> is given: the line saying where the description was saved,
  the panel with the description, or the line \<^verbatim>\<open>[red]Error:[/red]\<close> with \<^verbatim>\<open>str(e)\<close>.
\<close>

datatype console_item = SavedTo string | Panel string | ErrorLine string

text \<open>
  What \<^verbatim>\<open>describe_data\<close> calls: \<^verbatim>\<open>describe.generate_description(input_file, format)\<close>,
  \<^verbatim>\<open>output.write_text(result)\<close> and \<^verbatim>\<open>console.print\<close>, each returning or raising. The
  console reads square brackets in what it is given as markup: it answers with the text
  it shows, which can lack bracketed parts, or raises when a closing tag matches no open
  one.
\<close>

record cli_env =
  core_generate_description :: "string \<Rightarrow> string \<Rightarrow> exc + string"
  write_text :: "string \<Rightarrow> string \<Rightarrow> exc + unit"
  console_print :: "console_item \<Rightarrow> exc + string"

text \<open>
  How a command function ends: it returns, it raises \<^verbatim>\<open>typer.Exit(code)\<close>, or another
  exception leaves it.
\<close>

datatype outcome = Returned | Exited int | Raised exc

text \<open>
  The \<^verbatim>\<open>except Exception\<close> block of \<^verbatim>\<open>describe_data\<close>: an exception raised by the
  print inside it is caught by nothing.
\<close>

definition print_error :: "cli_env \<Rightarrow> exc \<Rightarrow> string list \<times> outcome" where
  "print_error env e =
     (case console_print env (ErrorLine (exc_str e)) of
        Inl e' \<Rightarrow> ([], Raised e')
      | Inr shown \<Rightarrow> ([shown], Returned))"

text \<open>
  \<^verbatim>\<open>describe_data\<close>: what the console has shown, and how the function ends. Every call
  in the \<^verbatim>\<open>try\<close> block, the two prints too, leads to the \<^verbatim>\<open>except\<close> block when it
  raises.
\<close>

definition describe_data ::
  "cli_env \<Rightarrow> string \<Rightarrow> string option \<Rightarrow> string \<Rightarrow> string list \<times> outcome" where
  "describe_data env input_file output fmt =
     (case core_generate_description env input_file fmt of
        Inl e \<Rightarrow> print_error env e
      | Inr result \<Rightarrow>
          (case output of
             Some path \<Rightarrow>
               (case write_text env path result of
                  Inl e \<Rightarrow> print_error env e
                | Inr _ \<Rightarrow>
                    (case console_print env (SavedTo path) of
                       Inl e \<Rightarrow> print_error env e
                     | Inr shown \<Rightarrow> ([shown], Returned)))
           | None \<Rightarrow>
               (case console_print env (Panel result) of
                  Inl e \<Rightarrow> print_error env e
                | Inr shown \<Rightarrow> ([shown], Returned))))"

text \<open>
  The exit status that \<^verbatim>\<open>app()\<close> gives the process: 0 when the command function
  returns, the code of a \<^verbatim>\<open>typer.Exit\<close>, and 1 when another exception leaves the
  function (then with a traceback).
\<close>

fun exit_code :: "outcome \<Rightarrow> int" where
  "exit_code Returned = 0"
| "exit_code (Exited code) = code"
| "exit_code (Raised e) = 1"

text \<open>
  Two runs on a missing input file. In the first the file is \<^verbatim>\<open>example.shp\<close> and the
  console shows what it is given. In the second the file is \<^verbatim>\<open>[/x].shp\<close>, and the
  console takes the \<^verbatim>\<open>[/x]\<close> of the error message for a closing tag.
\<close>

definition cli_core_fails :: cli_env where
  "cli_core_fails =
     \<lparr>core_generate_description = (\<lambda>input_file fmt. Inl (Other (input_file @ '': No such file or directory''))),
      write_text = (\<lambda>path text. Inr ()),
      console_print = (\<lambda>item. case item of
                          SavedTo path \<Rightarrow> Inr (''Description saved to: '' @ path)
                        | Panel result \<Rightarrow> Inr result
                        | ErrorLine message \<Rightarrow> Inr (''Error: '' @ message))\<rparr>"

definition cli_markup_fails :: cli_env where
  "cli_markup_fails =
     \<lparr>core_generate_description = (\<lambda>input_file fmt. Inl (Other (input_file @ '': No such file or directory''))),
      write_text = (\<lambda>path text. Inr ()),
      console_print = (\<lambda>item. case item of
                          SavedTo path \<Rightarrow> Inr (''Description saved to: '' @ path)
                        | Panel result \<Rightarrow> Inr result
                        | ErrorLine message \<Rightarrow>
                            if prefix ''[/x]'' message
                            then Inl (Other ''closing tag '[/x]' at position 18 doesn't match any open tag'')
                            else Inr (''Error: '' @ message))\<rparr>"

section \<open>Properties of the string functions\<close>

lemma strip_core:
  assumes "x \<noteq> []" "\<not> isspace (hd x)" "\<not> isspace (last x)"
    and "\<forall>c \<in> set a. isspace c" "\<forall>c \<in> set b. isspace c"
  shows "strip (a @ x @ b) = x"
proof -
  have front: "dropWhile isspace (a @ x @ b) = x @ b"
    using assms by (cases x) (simp_all add: dropWhile_append3)
  have "rev (x @ b) = rev b @ rev x"
    by simp
  moreover have "rev x \<noteq> []" "\<not> isspace (hd (rev x))"
    using assms by (simp_all add: hd_rev)
  moreover have "\<forall>c \<in> set (rev b). isspace c"
    using assms by simp
  ultimately have "dropWhile isspace (rev (x @ b)) = rev x"
    by (cases "rev x") (simp_all add: dropWhile_append3)
  with front show ?thesis
    by (simp add: strip_def)
qed

lemma indent8_literal: "indent8 = ''        ''"
  by (simp add: indent8_def eval_nat_numeral)

lemma isspace_indent8: "\<forall>c \<in> set (''\<newline>'' @ indent8). isspace c"
  by (simp add: indent8_def isspace_def whitespace_def)

section \<open>The narrative fallbacks\<close>

text \<open>
  C9. Whenever the LLM backend is unavailable, \<open>suggest_tags\<close> returns the fixed list of
  five tags, for every description and every requested count, also a count below five:
  the count is not used to shorten the fallback list.
\<close>

theorem suggest_tags_fallback:
  "\<not> llm_available s \<Longrightarrow>
     suggest_tags env s description count =
       [''gis'', ''spatial-data'', ''geospatial'', ''vector-data'', ''analysis'']"
  by (simp add: suggest_tags_def generate_fallback_tags_def)

theorem suggest_tags_fallback_witness:
  "\<not> llm_available manager_off \<and>
   suggest_tags env_no_ollama manager_off ''Three cities'' 2 =
     [''gis'', ''spatial-data'', ''geospatial'', ''vector-data'', ''analysis'']"
proof -
  have off: "\<not> llm_available manager_off"
    by (simp add: manager_off_def)
  from off suggest_tags_fallback [OF off, of env_no_ollama "''Three cities''" 2]
  show ?thesis by simp
qed

text \<open>
  The stripped template: \<open>strip\<close> removes the line break and indentation before the
  first sentence and after the second, and nothing between them.
\<close>

lemma fallback_description_exact:
  "generate_fallback_description d =
     ''Dataset contains '' @ py_str (get_or (feature_count d) (SStr ''Unknown''))
     @ '' features of type '' @ join '', '' (get_or (geometry_type d) [''Unknown''])
     @ ''.\<newline>'' @ indent8 @ ''Available attributes: ''
     @ join '', '' (get_or (columns d) []) @ ''.''"
  (is "_ = ?x")
proof -
  have sp: "\<forall>c \<in> set (''\<newline>'' @ indent8). isspace c"
    by (rule isspace_indent8)
  have ne: "?x \<noteq> []" by simp
  have h: "\<not> isspace (hd ?x)" by (simp add: isspace_def whitespace_def)
  have l: "\<not> isspace (last ?x)" by (simp add: isspace_def whitespace_def)
  have "strip ((''\<newline>'' @ indent8) @ ?x @ (''\<newline>'' @ indent8)) = ?x"
    by (rule strip_core [OF ne h l sp sp])
  then show ?thesis
    by (simp add: generate_fallback_description_def Let_def)
qed

text \<open>
  C1, as the code has it. Whenever the LLM backend is unavailable, \<open>generate_description\<close>
  returns the sentence "Dataset contains (feature count) features of type (comma-joined
  geometry types)." and the sentence "Available attributes: (comma-joined columns).",
  separated by a line break and the eight spaces of the template's indentation, and
  nothing else. An absent feature count or geometry type reads "Unknown", absent columns
  give the empty list.
\<close>

theorem generate_description_fallback:
  "\<not> llm_available s \<Longrightarrow>
     generate_description env s d =
       ''Dataset contains '' @ py_str (get_or (feature_count d) (SStr ''Unknown''))
       @ '' features of type '' @ join '', '' (get_or (geometry_type d) [''Unknown''])
       @ ''.\<newline>'' @ indent8 @ ''Available attributes: ''
       @ join '', '' (get_or (columns d) []) @ ''.''"
  by (simp add: generate_description_def fallback_description_exact)

theorem generate_description_fallback_witness:
  "\<not> llm_available manager_off \<and>
   generate_description env_no_ollama manager_off cities =
     ''Dataset contains 3 features of type Point.\<newline>        Available attributes: name, population, state.''"
proof -
  have off: "\<not> llm_available manager_off"
    by (simp add: manager_off_def)
  from off generate_description_fallback [OF off, of env_no_ollama cities]
  show ?thesis by (simp add: cities_def get_or_def str_int_def indent8_literal)
qed

text \<open>
  C1, as the specification words it, fails: for three point features with the columns
  name, population and state, the result is not the one-line string with a single space
  between the two sentences.
\<close>

theorem generate_description_fallback_counterexample:
  "\<not> llm_available manager_off \<and>
   generate_description env_no_ollama manager_off cities \<noteq>
     ''Dataset contains 3 features of type Point. Available attributes: name, population, state.''"
  by (simp add: generate_description_def manager_off_def generate_fallback_description_def
      cities_def get_or_def str_int_def indent8_literal strip_def isspace_def whitespace_def)

section \<open>Construction of the manager\<close>

text \<open>
  C2 at an environment where \<^verbatim>\<open>import ollama\<close> succeeds and the model listing raises:
  construction returns a manager whose \<open>llm_available\<close> is true and that carries no
  warning, because \<open>ensure_model\<close> is called while the flag is still false and returns
  before the probe, and the flag is set afterwards whatever \<open>ensure_model\<close> did. The same
  \<open>ensure_model\<close>, run on that manager, does clear the flag.
\<close>

theorem LLMManager_init_server_down:
  "list_models env_server_down = Inl (Other ''connection refused'') \<and>
   LLMManager_init env_server_down None None False =
     Inr \<lparr>model = ''phi'', context_window = 2048, llm_available = True, ollama = True,
          warned = []\<rparr> \<and>
   ensure_model env_server_down
       \<lparr>model = ''phi'', context_window = 2048, llm_available = True, ollama = True,
        warned = []\<rparr> =
     \<lparr>model = ''phi'', context_window = 2048, llm_available = False, ollama = True,
      warned = [''Failed to initialize Ollama: connection refused'']\<rparr>"
  by (simp add: LLMManager_init_def env_server_down_def ensure_model_def DEFAULT_MODEL_def
      DEFAULT_CONTEXT_def)

lemma to_upper_underscore: "(to_upper c = CHR ''_'') = (c = CHR ''_'')"
  by (auto simp add: to_upper_def ascii_lowercase_def ascii_uppercase_def)

lemma to_lower_underscore: "(to_lower c = CHR ''_'') = (c = CHR ''_'')"
  by (auto simp add: to_lower_def ascii_lowercase_def ascii_uppercase_def)

lemma title_from_underscore:
  "(CHR ''_'' \<in> set (title_from prev s)) = (CHR ''_'' \<in> set s)"
proof (induction s arbitrary: prev)
  case Nil
  show ?case by simp
next
  case (Cons c cs)
  have up: "(CHR ''_'' = to_upper c) = (CHR ''_'' = c)"
    using to_upper_underscore [of c] by auto
  have lo: "(CHR ''_'' = to_lower c) = (CHR ''_'' = c)"
    using to_lower_underscore [of c] by auto
  show ?case
    by (simp add: Cons.IH up lo)
qed

lemma replace_absent: "a \<notin> set s \<Longrightarrow> replace a b s = s"
  by (induction s) (auto simp add: replace_def)

lemma replace_removes: "a \<noteq> b \<Longrightarrow> a \<notin> set (replace a b s)"
  by (auto simp add: replace_def)

lemma replace_keeps: "c \<noteq> a \<Longrightarrow> c \<noteq> b \<Longrightarrow> (c \<in> set (replace a b s)) = (c \<in> set s)"
  by (induction s) (auto simp add: replace_def)

section \<open>The reference system label\<close>

text \<open>
  C3. \<open>get_crs_info\<close> is a total function into strings, and on the four shapes a
  dataset's reference system can have it returns: "undefined" when none is attached, the
  identifier itself when it is a string, "AUTHORITY:CODE" when the authority lookup gives
  a pair, and "Custom:Unknown" when the lookup gives nothing.
\<close>

theorem get_crs_info_cases:
  "get_crs_info (gdf\<lparr>gdf_crs := None\<rparr>) = ''undefined'' \<and>
   get_crs_info (gdf\<lparr>gdf_crs := Some (CrsString s)\<rparr>) = s \<and>
   get_crs_info (gdf\<lparr>gdf_crs := Some (CrsObject \<lparr>to_authority = Some (authority, code),
                                                    is_geographic = g\<rparr>)\<rparr>)
     = authority @ '':'' @ code \<and>
   get_crs_info (gdf\<lparr>gdf_crs := Some (CrsObject \<lparr>to_authority = None, is_geographic = g\<rparr>)\<rparr>)
     = ''Custom:Unknown''"
  by (simp add: get_crs_info_def)

section \<open>Statistics of an empty dataset\<close>




section \<open>Section markers of the renderers\<close>

































section \<open>The format selector\<close>

text \<open>
  C5. \<open>format_output\<close> is total in the format name: the lower-cased name selects the
  markdown, HTML or plain-text renderer, and every other name, such as "xml", gives
  exactly what \<open>format_text\<close> gives on the same sections.
\<close>

theorem format_output_selector:
  "format_output components fmt =
     (if lower fmt = ''markdown'' then format_markdown components
      else if lower fmt = ''html'' then format_html components
      else format_text components) \<and>
   format_output components ''xml'' = format_text components \<and>
   format_output components ''HTML'' = format_html components \<and>
   format_output components ''MarkDown'' = format_markdown components"
  by (simp add: format_output_def lower_def to_lower_def ascii_lowercase_def ascii_uppercase_def)

section \<open>Page titles\<close>

text \<open>
  C7, as the code has it. The title of a page is its file's stem with every hyphen
  converted to a space, then title-cased; underscores are kept. It is the title the
  specification describes exactly when the stem holds no underscore.
\<close>

theorem title_of_stem_hyphens_only:
  "title_of_stem s = title (replace (CHR ''-'') (CHR '' '') s) \<and>
   (title_of_stem s = spec_title_of_stem s) = (CHR ''_'' \<notin> set s)"
proof -
  let ?h = "replace (CHR ''-'') (CHR '' '') s"
  have keep: "(CHR ''_'' \<in> set ?h) = (CHR ''_'' \<in> set s)"
    by (simp add: replace_keeps)
  have "title_of_stem s = spec_title_of_stem s" if "CHR ''_'' \<notin> set s"
    using that keep by (simp add: title_of_stem_def spec_title_of_stem_def replace_absent)
  moreover have "title_of_stem s \<noteq> spec_title_of_stem s" if us: "CHR ''_'' \<in> set s"
  proof
    assume eq: "title_of_stem s = spec_title_of_stem s"
    have "CHR ''_'' \<in> set (title_of_stem s)"
      using us keep by (simp add: title_of_stem_def title_def title_from_underscore)
    moreover have "CHR ''_'' \<notin> set (spec_title_of_stem s)"
      by (simp add: spec_title_of_stem_def title_def title_from_underscore replace_removes)
    ultimately show False using eq by simp
  qed
  ultimately show ?thesis
    by (auto simp add: title_of_stem_def)
qed

theorem title_of_stem_hyphens_only_witness:
  "CHR ''_'' \<notin> set ''city-data'' \<and>
   title_of_stem ''city-data'' = ''City Data'' \<and>
   spec_title_of_stem ''city-data'' = ''City Data''"
proof -
  have t: "title_of_stem ''city-data'' = ''City Data''"
    by (simp add: title_of_stem_def title_def replace_def islower_def isupper_def to_upper_def
        to_lower_def ascii_lowercase_def ascii_uppercase_def)
  have "(title_of_stem ''city-data'' = spec_title_of_stem ''city-data'')
          = (CHR ''_'' \<notin> set ''city-data'')"
    by (rule title_of_stem_hyphens_only [of "''city-data''", THEN conjunct2])
  then have "spec_title_of_stem ''city-data'' = title_of_stem ''city-data''"
    by simp
  with t show ?thesis
    by simp
qed

text \<open>
  C7, as the specification words it, fails at the stem \<^verbatim>\<open>my_file\<close>: the title is
  \<^verbatim>\<open>My_File\<close>, with the underscore, and not \<^verbatim>\<open>My File\<close>.
\<close>

theorem title_of_stem_counterexample:
  "title_of_stem ''my_file'' = ''My_File'' \<and>
   spec_title_of_stem ''my_file'' = ''My File'' \<and>
   title_of_stem ''my_file'' \<noteq> spec_title_of_stem ''my_file''"
  by (simp add: title_of_stem_def spec_title_of_stem_def title_def replace_def islower_def
      isupper_def to_upper_def to_lower_def ascii_lowercase_def ascii_uppercase_def)

section \<open>Errors in a command\<close>

text \<open>
  C8, as the code has it. Whatever exception the core raises while \<open>describe_data\<close> runs,
  the command gives the console one error line holding the exception's message. When
  the console shows it, nothing else is shown and the command returns: the process ends
  with status 0. When the console raises on it, nothing is shown and that exception
  leaves the command: the process ends with a traceback and status 1.
\<close>

theorem describe_data_core_error:
  "core_generate_description env input_file fmt = Inl e \<Longrightarrow>
     (console_print env (ErrorLine (exc_str e)) = Inr shown \<longrightarrow>
        describe_data env input_file output fmt = ([shown], Returned) \<and>
        exit_code (snd (describe_data env input_file output fmt)) = 0) \<and>
     (console_print env (ErrorLine (exc_str e)) = Inl e' \<longrightarrow>
        describe_data env input_file output fmt = ([], Raised e') \<and>
        exit_code (snd (describe_data env input_file output fmt)) = 1)"
  by (simp add: describe_data_def print_error_def)

theorem describe_data_core_error_witness:
  "core_generate_description cli_core_fails ''example.shp'' ''markdown''
     = Inl (Other ''example.shp: No such file or directory'') \<and>
   console_print cli_core_fails (ErrorLine ''example.shp: No such file or directory'')
     = Inr ''Error: example.shp: No such file or directory'' \<and>
   describe_data cli_core_fails ''example.shp'' None ''markdown''
     = ([''Error: example.shp: No such file or directory''], Returned) \<and>
   exit_code (snd (describe_data cli_core_fails ''example.shp'' None ''markdown'')) = 0 \<and>
   core_generate_description cli_markup_fails ''[/x].shp'' ''markdown''
     = Inl (Other ''[/x].shp: No such file or directory'') \<and>
   console_print cli_markup_fails (ErrorLine ''[/x].shp: No such file or directory'')
     = Inl (Other ''closing tag '[/x]' at position 18 doesn't match any open tag'') \<and>
   describe_data cli_markup_fails ''[/x].shp'' None ''markdown''
     = ([], Raised (Other ''closing tag '[/x]' at position 18 doesn't match any open tag'')) \<and>
   exit_code (snd (describe_data cli_markup_fails ''[/x].shp'' None ''markdown'')) = 1"
proof -
  have core: "core_generate_description cli_core_fails ''example.shp'' ''markdown''
                = Inl (Other ''example.shp: No such file or directory'')"
    by (simp add: cli_core_fails_def)
  have shown: "console_print cli_core_fails (ErrorLine (exc_str (Other ''example.shp: No such file or directory'')))
                 = Inr ''Error: example.shp: No such file or directory''"
    by (simp add: cli_core_fails_def)
  have core': "core_generate_description cli_markup_fails ''[/x].shp'' ''markdown''
                 = Inl (Other ''[/x].shp: No such file or directory'')"
    by (simp add: cli_markup_fails_def)
  have raised: "console_print cli_markup_fails (ErrorLine (exc_str (Other ''[/x].shp: No such file or directory'')))
                  = Inl (Other ''closing tag '[/x]' at position 18 doesn't match any open tag'')"
    by (simp add: cli_markup_fails_def)
  from describe_data_core_error [of cli_core_fails "''example.shp''" "''markdown''" _ _ None,
      OF core, THEN conjunct1] shown
  have "describe_data cli_core_fails ''example.shp'' None ''markdown''
          = ([''Error: example.shp: No such file or directory''], Returned) \<and>
        exit_code (snd (describe_data cli_core_fails ''example.shp'' None ''markdown'')) = 0"
    by blast
  moreover from describe_data_core_error [of cli_markup_fails "''[/x].shp''" "''markdown''" _ _ None,
      OF core', THEN conjunct2] raised
  have "describe_data cli_markup_fails ''[/x].shp'' None ''markdown''
          = ([], Raised (Other ''closing tag '[/x]' at position 18 doesn't match any open tag'')) \<and>
        exit_code (snd (describe_data cli_markup_fails ''[/x].shp'' None ''markdown'')) = 1"
    by blast
  ultimately show ?thesis
    using core shown core' raised by simp
qed

text \<open>
  C8, as the specification words it, fails twice. When the core raises on the missing
  file \<^verbatim>\<open>example.shp\<close>, the message is printed and the exit status is not different
  from 0. When it raises on the missing file \<^verbatim>\<open>[/x].shp\<close>, no message is printed and an
  exception leaves the command, which the process reports with a traceback.
\<close>

theorem describe_data_exit_counterexample:
  "core_generate_description cli_core_fails ''example.shp'' ''markdown''
     = Inl (Other ''example.shp: No such file or directory'') \<and>
   \<not> exit_code (snd (describe_data cli_core_fails ''example.shp'' None ''markdown'')) \<noteq> 0 \<and>
   core_generate_description cli_markup_fails ''[/x].shp'' ''markdown''
     = Inl (Other ''[/x].shp: No such file or directory'') \<and>
   describe_data cli_markup_fails ''[/x].shp'' None ''markdown''
     = ([], Raised (Other ''closing tag '[/x]' at position 18 doesn't match any open tag''))"
  by (simp add: describe_data_def print_error_def cli_core_fails_def cli_markup_fails_def)

section \<open>Synchronising a directory\<close>

lemma publish_content_create:
  assumes "config env = Some cfg" "sid \<noteq> []"
  shows "publish_content env trace content ttl (Some sid) None =
           (case create_page env sid ttl content of
              Inl e \<Rightarrow> (trace, Inl e)
            | Inr response \<Rightarrow> (trace @ [Created sid ttl content], Inr response))"
  using assms by (simp add: publish_content_def load_config_def or_else_def)

text \<open>
  One round of the loop on a file that is not the index: it raises and leaves the trace as
  it was, or publishes and raises on the missing id, or publishes and goes on with one
  more entry.
\<close>

lemma sync_files_step:
  assumes "config env = Some cfg" "sid \<noteq> []" "file_name f \<noteq> ''SUMMARY.md''"
  shows "sync_files env sid (f # rest) trace pages =
           (case create_page env sid (title_of_stem (stem (file_name f))) (file_content f) of
              Inl e \<Rightarrow> (trace, Inl e)
            | Inr response \<Rightarrow>
                (case response ''id'' of
                   None \<Rightarrow> (trace @ [created sid f], Inl (KeyError (CHR 0x27 # ''id'' @ [CHR 0x27])))
                 | Some i \<Rightarrow>
                     sync_files env sid rest (trace @ [created sid f])
                       (pages @ [\<lparr>p_title = title_of_stem (stem (file_name f)),
                                  p_path = relative_path f, p_id = i\<rparr>])))"
  using assms(3)
  by (simp add: publish_content_create [OF assms(1,2)] created_def Let_def
      split: sum.splits option.splits)

text \<open>
  The loop, from any state: when it ends well it has published exactly the files that are
  not the index, in order, and appended one entry for each.
\<close>

lemma sync_files_success:
  assumes "config env = Some cfg" "sid \<noteq> []"
  shows "sync_files env sid fs trace pages = (trace', Inr pages') \<Longrightarrow>
           trace' = trace @ map (created sid) (filter (\<lambda>f. file_name f \<noteq> ''SUMMARY.md'') fs) \<and>
           (\<exists>new. pages' = pages @ new \<and>
              list_all2 (entry_of env sid) (filter (\<lambda>f. file_name f \<noteq> ''SUMMARY.md'') fs) new)"
proof (induction fs arbitrary: trace pages)
  case Nil
  then show ?case by simp
next
  case (Cons f rest)
  show ?case
  proof (cases "file_name f = ''SUMMARY.md''")
    case True
    then show ?thesis
      using Cons.IH [of trace pages] Cons.prems by simp
  next
    case False
    let ?ttl = "title_of_stem (stem (file_name f))"
    from Cons.prems sync_files_step [OF assms False, of rest trace pages]
    obtain response i where resp: "create_page env sid ?ttl (file_content f) = Inr response"
        "response ''id'' = Some i"
      and rec: "sync_files env sid rest (trace @ [created sid f])
                  (pages @ [\<lparr>p_title = ?ttl, p_path = relative_path f, p_id = i\<rparr>])
                = (trace', Inr pages')"
      by (auto split: sum.splits option.splits)
    let ?p = "\<lparr>p_title = ?ttl, p_path = relative_path f, p_id = i\<rparr>"
    from Cons.IH [OF rec]
    obtain new where new: "trace' = (trace @ [created sid f]) @ map (created sid)
                             (filter (\<lambda>f. file_name f \<noteq> ''SUMMARY.md'') rest)"
        "pages' = (pages @ [?p]) @ new"
        "list_all2 (entry_of env sid) (filter (\<lambda>f. file_name f \<noteq> ''SUMMARY.md'') rest) new"
      by auto
    have entry: "entry_of env sid f ?p"
      using resp by (simp add: entry_of_def)
    have "pages' = pages @ (?p # new)"
      using new(2) by simp
    moreover have "list_all2 (entry_of env sid)
                     (filter (\<lambda>f. file_name f \<noteq> ''SUMMARY.md'') (f # rest)) (?p # new)"
      using False entry new(3) by simp
    moreover have "trace' = trace @ map (created sid)
                     (filter (\<lambda>f. file_name f \<noteq> ''SUMMARY.md'') (f # rest))"
      using False new(1) by simp
    ultimately show ?thesis
      by blast
  qed
qed

text \<open>When the loop raises, it has published some first of those files and no other.\<close>

lemma sync_files_failure:
  assumes "config env = Some cfg" "sid \<noteq> []"
  shows "sync_files env sid fs trace pages = (trace', Inl e) \<Longrightarrow>
           \<exists>k. trace' = trace @ map (created sid)
                               (take k (filter (\<lambda>f. file_name f \<noteq> ''SUMMARY.md'') fs))"
proof (induction fs arbitrary: trace pages)
  case Nil
  then show ?case by simp
next
  case (Cons f rest)
  show ?case
  proof (cases "file_name f = ''SUMMARY.md''")
    case True
    then show ?thesis
      using Cons.IH [of trace pages] Cons.prems by simp
  next
    case False
    let ?ttl = "title_of_stem (stem (file_name f))"
    let ?tg = "filter (\<lambda>f. file_name f \<noteq> ''SUMMARY.md'')"
    from Cons.prems sync_files_step [OF assms False, of rest trace pages]
    consider (refused) "trace' = trace"
      | (no_id) "trace' = trace @ [created sid f]"
      | (later) i where "sync_files env sid rest (trace @ [created sid f])
                           (pages @ [\<lparr>p_title = ?ttl, p_path = relative_path f, p_id = i\<rparr>])
                         = (trace', Inl e)"
      by (auto split: sum.splits option.splits)
    then show ?thesis
    proof cases
      case refused
      then have "trace' = trace @ map (created sid) (take 0 (?tg (f # rest)))"
        by simp
      then show ?thesis by blast
    next
      case no_id
      then have "trace' = trace @ map (created sid) (take 1 (?tg (f # rest)))"
        using False by simp
      then show ?thesis by blast
    next
      case later
      from Cons.IH [OF later]
      obtain k where "trace' = (trace @ [created sid f]) @ map (created sid) (take k (?tg rest))"
        by auto
      then have "trace' = trace @ map (created sid) (take (Suc k) (?tg (f # rest)))"
        using False by simp
      then show ?thesis by blast
    qed
  qed
qed

text \<open>The loop ends well when the remote accepts every file that is not the index.\<close>

lemma sync_files_progress:
  assumes "config env = Some cfg" "sid \<noteq> []"
  shows "list_all (accepts env sid) (filter (\<lambda>f. file_name f \<noteq> ''SUMMARY.md'') fs) \<Longrightarrow>
           \<exists>trace' pages'. sync_files env sid fs trace pages = (trace', Inr pages')"
proof (induction fs arbitrary: trace pages)
  case Nil
  show ?case by simp
next
  case (Cons f rest)
  show ?case
  proof (cases "file_name f = ''SUMMARY.md''")
    case True
    then show ?thesis
      using Cons by simp
  next
    case False
    with Cons.prems have acc: "accepts env sid f"
      and rest: "list_all (accepts env sid) (filter (\<lambda>f. file_name f \<noteq> ''SUMMARY.md'') rest)"
      by simp_all
    from acc obtain response i
      where "create_page env sid (title_of_stem (stem (file_name f))) (file_content f) = Inr response"
        and "response ''id'' = Some i"
      by (auto simp add: accepts_def split: sum.splits)
    then show ?thesis
      using Cons.IH [OF rest]
      by (simp del: sync_files.simps add: sync_files_step [OF assms False])
  qed
qed


text \<open>
  C10. Whatever happens, the pages \<open>sync_directory\<close> creates are the markdown files other
  than \<^verbatim>\<open>SUMMARY.md\<close>, in the order of the glob and each once. When it returns, it has
  published every one of them, the index is written after the last of them, and the
  list returned holds one entry per published file with that file's title, relative
  path and remote id. When it raises, no index has been written. It does return when
  the configuration names a space, the remote accepts every such file and the index
  template renders.
\<close>

theorem sync_directory_publishes:
  "list_all (\<lambda>f. file_name f \<noteq> ''SUMMARY.md'') (targets files) \<and>
   (sync_directory env files space_id = (trace, Inr pages) \<longrightarrow>
      (\<exists>sid summary.
         trace = map (created sid) (targets files) @ [WriteSummary summary] \<and>
         create_summary env pages = Inr summary \<and>
         list_all2 (entry_of env sid) (targets files) pages)) \<and>
   (sync_directory env files space_id = (trace, Inl e) \<longrightarrow>
      (\<exists>sid k. trace = map (created sid) (take k (targets files)))) \<and>
   (config env = Some cfg \<and> or_else space_id (cfg ''default_space'') = Some sid \<and> sid \<noteq> [] \<and>
    list_all (accepts env sid) (targets files) \<and>
    (\<forall>ps. \<exists>summary. create_summary env ps = Inr summary)
      \<longrightarrow> (\<exists>tr ps. sync_directory env files space_id = (tr, Inr ps)))"
proof (intro conjI impI)
  show "list_all (\<lambda>f. file_name f \<noteq> ''SUMMARY.md'') (targets files)"
    by (simp add: targets_def list_all_iff)
next
  assume run: "sync_directory env files space_id = (trace, Inr pages)"
  then obtain cfg sid where cfg: "config env = Some cfg" and sid: "sid \<noteq> []"
    and res: "or_else space_id (cfg ''default_space'') = Some sid"
    by (auto simp add: sync_directory_def load_config_def split: option.splits if_splits)
  from run cfg res sid obtain tr summary
    where loop: "sync_files env sid (glob_md files) [] [] = (tr, Inr pages)"
      and summary: "create_summary env pages = Inr summary"
      and trace: "trace = tr @ [WriteSummary summary]"
    by (auto simp add: sync_directory_def load_config_def split: prod.splits sum.splits)
  from sync_files_success [OF cfg sid loop]
  have "tr = map (created sid) (targets files)"
    and "list_all2 (entry_of env sid) (targets files) pages"
    by (auto simp add: targets_def)
  with summary trace
  show "\<exists>sid summary. trace = map (created sid) (targets files) @ [WriteSummary summary] \<and>
          create_summary env pages = Inr summary \<and>
          list_all2 (entry_of env sid) (targets files) pages"
    by blast
next
  assume run: "sync_directory env files space_id = (trace, Inl e)"
  show "\<exists>sid k. trace = map (created sid) (take k (targets files))"
  proof (cases "\<exists>cfg sid. config env = Some cfg \<and> or_else space_id (cfg ''default_space'') = Some sid
                  \<and> sid \<noteq> []")
    case False
    with run have "trace = []"
      by (auto simp add: sync_directory_def load_config_def split: option.splits if_splits)
    then have "trace = map (created []) (take 0 (targets files))"
      by simp
    then show ?thesis by blast
  next
    case True
    then obtain cfg sid where cfg: "config env = Some cfg" and sid: "sid \<noteq> []"
      and res: "or_else space_id (cfg ''default_space'') = Some sid"
      by blast
    obtain tr r where loop: "sync_files env sid (glob_md files) [] [] = (tr, r)"
      by (cases "sync_files env sid (glob_md files) [] []")
    show ?thesis
    proof (cases r)
      case (Inl e1)
      with run cfg res sid loop have "trace = tr"
        by (simp add: sync_directory_def load_config_def)
      with sync_files_failure [OF cfg sid loop [unfolded Inl]] show ?thesis
        by (auto simp add: targets_def)
    next
      case (Inr ps)
      with run cfg res sid loop have "trace = tr"
        by (auto simp add: sync_directory_def load_config_def split: sum.splits)
      moreover from sync_files_success [OF cfg sid loop [unfolded Inr]]
      have "tr = map (created sid) (take (length (targets files)) (targets files))"
        by (simp add: targets_def)
      ultimately show ?thesis by blast
    qed
  qed
next
  assume ok: "config env = Some cfg \<and> or_else space_id (cfg ''default_space'') = Some sid \<and> sid \<noteq> [] \<and>
              list_all (accepts env sid) (targets files) \<and> (\<forall>ps. \<exists>summary. create_summary env ps = Inr summary)"
  then have cfg: "config env = Some cfg" and sid: "sid \<noteq> []"
    and res: "or_else space_id (cfg ''default_space'') = Some sid"
    and acc: "list_all (accepts env sid) (filter (\<lambda>f. file_name f \<noteq> ''SUMMARY.md'') (glob_md files))"
    by (simp_all add: targets_def)
  from sync_files_progress [OF cfg sid acc, of "[]" "[]"]
  obtain tr ps where loop: "sync_files env sid (glob_md files) [] [] = (tr, Inr ps)"
    by blast
  show "\<exists>tr ps. sync_directory env files space_id = (tr, Inr ps)"
  proof -
    from ok obtain summary where "create_summary env ps = Inr summary"
      by blast
    then show ?thesis
      using cfg res sid loop by (simp add: sync_directory_def load_config_def)
  qed
qed


theorem sync_directory_publishes_witness:
  "config gitbook_ok = Some [''default_space'' \<mapsto> ''space-1''] \<and>
   or_else None ([''default_space'' \<mapsto> ''space-1''] ''default_space'') = Some ''space-1'' \<and>
   list_all (accepts gitbook_ok ''space-1'') (targets docs_dir) \<and>
   (\<forall>ps. \<exists>summary. create_summary gitbook_ok ps = Inr summary) \<and>
   sync_directory gitbook_ok docs_dir None =
     ([Created ''space-1'' ''Us Cities'' ''# US Major Cities'',
       Created ''space-1'' ''Getting_Started'' ''# Start'',
       WriteSummary ''* Us Cities\<newline>* Getting_Started\<newline>''],
      Inr [\<lparr>p_title = ''Us Cities'', p_path = ''us-cities.md'', p_id = ''page-Us Cities''\<rparr>,
           \<lparr>p_title = ''Getting_Started'', p_path = ''guides/getting_started.md'',
            p_id = ''page-Getting_Started''\<rparr>]) \<and>
   list_all2 (entry_of gitbook_ok ''space-1'') (targets docs_dir)
     [\<lparr>p_title = ''Us Cities'', p_path = ''us-cities.md'', p_id = ''page-Us Cities''\<rparr>,
      \<lparr>p_title = ''Getting_Started'', p_path = ''guides/getting_started.md'',
       p_id = ''page-Getting_Started''\<rparr>]"
proof -
  have tg: "targets docs_dir =
              [\<lparr>file_parent = [], file_name = ''us-cities.md'', file_content = ''# US Major Cities''\<rparr>,
               \<lparr>file_parent = [''guides''], file_name = ''getting_started.md'',
                file_content = ''# Start''\<rparr>]"
    by (simp add: targets_def glob_md_def docs_dir_def suffix_def)
  have t1: "title_of_stem (stem ''us-cities.md'') = ''Us Cities''"
    by code_simp
  have t2: "title_of_stem (stem ''getting_started.md'') = ''Getting_Started''"
    by code_simp
  have cfg: "config gitbook_ok = Some [''default_space'' \<mapsto> ''space-1'']"
    by (simp add: gitbook_ok_def)
  have sid: "or_else None ([''default_space'' \<mapsto> ''space-1''] ''default_space'') = Some ''space-1''"
    by (simp add: or_else_def)
  have acc: "list_all (accepts gitbook_ok ''space-1'') (targets docs_dir)"
    by (simp add: tg accepts_def gitbook_ok_def)
  have summ: "\<forall>ps. \<exists>summary. create_summary gitbook_ok ps = Inr summary"
    by (simp add: gitbook_ok_def)
  from sync_directory_publishes [of docs_dir gitbook_ok None _ _ _ "[''default_space'' \<mapsto> ''space-1'']"
      "''space-1''", THEN conjunct2, THEN conjunct2, THEN conjunct2] cfg sid acc summ
  obtain tr ps where run: "sync_directory gitbook_ok docs_dir None = (tr, Inr ps)"
    by auto
  from sync_directory_publishes [of docs_dir gitbook_ok None tr ps, THEN conjunct2, THEN conjunct1] run
  obtain s summary where out: "tr = map (created s) (targets docs_dir) @ [WriteSummary summary]"
      "create_summary gitbook_ok ps = Inr summary"
      "list_all2 (entry_of gitbook_ok s) (targets docs_dir) ps"
    by blast
  have run': "sync_directory gitbook_ok docs_dir None =
     ([Created ''space-1'' ''Us Cities'' ''# US Major Cities'',
       Created ''space-1'' ''Getting_Started'' ''# Start'',
       WriteSummary ''* Us Cities\<newline>* Getting_Started\<newline>''],
      Inr [\<lparr>p_title = ''Us Cities'', p_path = ''us-cities.md'', p_id = ''page-Us Cities''\<rparr>,
           \<lparr>p_title = ''Getting_Started'', p_path = ''guides/getting_started.md'',
            p_id = ''page-Getting_Started''\<rparr>])"
    by (simp add: sync_directory_def load_config_def gitbook_ok_def or_else_def glob_md_def
        docs_dir_def suffix_def publish_content_def t1 t2 relative_path_def Let_def)
  from run run' have ps: "ps = [\<lparr>p_title = ''Us Cities'', p_path = ''us-cities.md'',
                                  p_id = ''page-Us Cities''\<rparr>,
                                \<lparr>p_title = ''Getting_Started'',
                                  p_path = ''guides/getting_started.md'',
                                  p_id = ''page-Getting_Started''\<rparr>]"
    and tr: "tr = [Created ''space-1'' ''Us Cities'' ''# US Major Cities'',
                   Created ''space-1'' ''Getting_Started'' ''# Start'',
                   WriteSummary ''* Us Cities\<newline>* Getting_Started\<newline>'']"
    by simp_all
  from out(1) tr have "s = ''space-1''"
    by (simp add: tg created_def)
  with out(3) ps
  have "list_all2 (entry_of gitbook_ok ''space-1'') (targets docs_dir)
     [\<lparr>p_title = ''Us Cities'', p_path = ''us-cities.md'', p_id = ''page-Us Cities''\<rparr>,
      \<lparr>p_title = ''Getting_Started'', p_path = ''guides/getting_started.md'',
       p_id = ''page-Getting_Started''\<rparr>]"
    by simp
  with cfg sid acc summ run' show ?thesis
    by simp
qed

end
